theory Spec2Isabelle
  imports Main "HOL-Library.Sublist" "HOL-Library.Option_ord"
begin

section \<open>Python values used by \<open>pr_agent/git_providers/git_provider.py\<close>\<close>

text \<open>
  A Python \<open>str\<close> is modelled as a \<^typ>\<open>string\<close>; a \<^typ>\<open>char\<close> stands for the code
  point of the same number, so the strings of the model are the Python strings over
  U+0000 .. U+00FF. A value that may be \<open>None\<close> is an \<open>option\<close>. An exception is a value
  of \<open>py_error\<close>, and a computation that may raise returns \<open>py_error + 'a\<close>.
\<close>

datatype py_error = AttributeError | IndexError | ValueError

subsection \<open>\<open>str.strip\<close>, \<open>str.startswith\<close>, \<open>in\<close>, \<open>str.split\<close>, \<open>str.lower\<close>\<close>

text \<open>
  \<open>str.isspace\<close> on one character: the code points below 256 that Python counts as
  whitespace are U+0009 .. U+000D, U+001C .. U+0020, U+0085 and U+00A0.
\<close>

definition isspace :: "char \<Rightarrow> bool" where
  "isspace c =
     (let n = (of_char c :: nat)
      in (9 \<le> n \<and> n \<le> 13) \<or> (28 \<le> n \<and> n \<le> 32) \<or> n = 133 \<or> n = 160)"

definition lstrip :: "string \<Rightarrow> string" where
  "lstrip s = dropWhile isspace s"

definition rstrip :: "string \<Rightarrow> string" where
  "rstrip s = rev (dropWhile isspace (rev s))"

definition strip :: "string \<Rightarrow> string" where
  "strip s = rstrip (lstrip s)"

definition startswith :: "string \<Rightarrow> string \<Rightarrow> bool" where
  "startswith s p = prefix p s"

text \<open>\<open>s.find(sep)\<close>: the lowest index at which \<open>sep\<close> occurs in \<open>s\<close>, if any.\<close>

fun str_find :: "string \<Rightarrow> string \<Rightarrow> nat option" where
  "str_find [] sep = (if sep = [] then Some 0 else None)"
| "str_find (c # cs) sep =
     (if prefix sep (c # cs) then Some 0
      else case str_find cs sep of None \<Rightarrow> None | Some i \<Rightarrow> Some (Suc i))"

text \<open>\<open>sep in s\<close>.\<close>

definition str_in :: "string \<Rightarrow> string \<Rightarrow> bool" where
  "str_in sep s = (str_find s sep \<noteq> None)"

text \<open>\<open>s.split(sep, 1)\<close>: at most one cut, at the first occurrence of \<open>sep\<close>.\<close>

definition split1 :: "string \<Rightarrow> string \<Rightarrow> py_error + string list" where
  "split1 s sep =
     (if sep = [] then Inl ValueError
      else case str_find s sep of
             None \<Rightarrow> Inr [s]
           | Some i \<Rightarrow> Inr [take i s, drop (i + length sep) s])"

text \<open>
  \<open>s.rsplit(sep)\<close> for a separator of one character and no limit on the number of
  cuts: \<open>s\<close> is cut at every occurrence of the separator, so the pieces are those of
  \<open>s.split(sep)\<close>, and there is always at least one.
\<close>

fun rsplit :: "string \<Rightarrow> char \<Rightarrow> string list" where
  "rsplit [] sep = [[]]"
| "rsplit (c # cs) sep =
     (if c = sep then [] # rsplit cs sep
      else case rsplit cs sep of
             [] \<Rightarrow> [[c]]
           | piece # pieces \<Rightarrow> (c # piece) # pieces)"

text \<open>\<open>xs[i]\<close>: an index below zero counts from the end; out of range raises.\<close>

definition getitem :: "'a list \<Rightarrow> int \<Rightarrow> py_error + 'a" where
  "getitem xs i =
     (if 0 \<le> i \<and> i < int (length xs) then Inr (xs ! nat i)
      else if i < 0 \<and> - int (length xs) \<le> i then Inr (xs ! nat (int (length xs) + i))
      else Inl IndexError)"

text \<open>
  \<open>str.lower\<close>: below U+0100 the cased letters are A .. Z and U+00C0 .. U+00DE
  without the multiplication sign U+00D7; each has its lower case 32 code points up.
\<close>

definition lower_char :: "char \<Rightarrow> char" where
  "lower_char c =
     (let n = (of_char c :: nat)
      in if (65 \<le> n \<and> n \<le> 90) \<or> (192 \<le> n \<and> n \<le> 222 \<and> n \<noteq> 215)
         then char_of (n + 32) else c)"

definition lower :: "string \<Rightarrow> string" where
  "lower s = map lower_char s"

text \<open>
  The builtin \<open>max(xs, key=f)\<close>: the first item whose key no later item exceeds;
  \<open>ValueError\<close> on an empty sequence.
\<close>

fun max_loop :: "('a \<Rightarrow> 'k::linorder) \<Rightarrow> 'a \<Rightarrow> 'a list \<Rightarrow> 'a" where
  "max_loop key best [] = best"
| "max_loop key best (x # xs) = max_loop key (if key best < key x then x else best) xs"

definition py_max :: "'a list \<Rightarrow> ('a \<Rightarrow> 'k::linorder) \<Rightarrow> py_error + 'a" where
  "py_max xs key = (case xs of [] \<Rightarrow> Inl ValueError | x # rest \<Rightarrow> Inr (max_loop key x rest))"

text \<open>
  A \<open>dict\<close> is the list of its items in insertion order, which is the order in
  which Python iterates over it; the keys of a dict are distinct.
\<close>

type_synonym ('k, 'v) dict = "('k \<times> 'v) list"

definition dict_keys :: "('k, 'v) dict \<Rightarrow> 'k list" where
  "dict_keys d = map fst d"

definition dict_get :: "('k, 'v) dict \<Rightarrow> 'k \<Rightarrow> 'v option" where
  "dict_get d k = map_of d k"

text \<open>\<open>x or ""\<close>: \<open>None\<close> and the empty string are falsy.\<close>

definition or_empty :: "string option \<Rightarrow> string" where
  "or_empty x = (case x of None \<Rightarrow> [] | Some s \<Rightarrow> if s = [] then [] else s)"

subsection \<open>The provider\<close>

text \<open>
  \<open>GitProvider\<close> is an abstract class. The two methods it implements itself read the
  pull request through the abstract \<open>get_pr_description_full\<close> only, so a provider
  is modelled by what that method returns: a string, or \<open>None\<close>.
\<close>

record GitProvider =
  get_pr_description_full :: "string option"

definition get_user_description :: "GitProvider \<Rightarrow> py_error + string" where
  "get_user_description self =
     (let description = strip (or_empty (get_pr_description_full self))
      in if \<not> startswith description ''## PR Type'' then Inr description
         else if \<not> str_in ''## User Description:'' description then Inr []
         else case split1 description ''## User Description:'' of
                Inl e \<Rightarrow> Inl e
              | Inr parts \<Rightarrow>
                  (case getitem parts 1 of
                     Inl e \<Rightarrow> Inl e
                   | Inr part \<Rightarrow> Inr (strip part)))"

text \<open>
  \<open>get_pr_description\<close> reads one setting and calls \<open>clip_tokens\<close> of
  \<open>pr_agent.algo.pr_processing\<close>; neither is part of this file, so both are
  arguments of the model: \<open>max_tokens\<close> is the value that
  \<open>get_settings().get("CONFIG.MAX_DESCRIPTION_TOKENS", None)\<close> returns, an integer or
  \<open>None\<close>, and \<open>if max_tokens:\<close> holds for an integer other than zero. With
  \<open>full\<close> the description is what \<open>get_pr_description_full\<close> returns, which may
  be \<open>None\<close>.
\<close>

definition get_pr_description ::
  "(string option \<Rightarrow> int \<Rightarrow> string option) \<Rightarrow> int option \<Rightarrow> GitProvider \<Rightarrow> bool
     \<Rightarrow> py_error + string option" where
  "get_pr_description clip_tokens max_tokens self full =
     (case (if full then Inr (get_pr_description_full self)
            else case get_user_description self of
                   Inl e \<Rightarrow> Inl e
                 | Inr s \<Rightarrow> Inr (Some s)) of
        Inl e \<Rightarrow> Inl e
      | Inr description \<Rightarrow>
          (case max_tokens of
             None \<Rightarrow> Inr description
           | Some n \<Rightarrow>
               if n \<noteq> 0 then Inr (clip_tokens description n) else Inr description))"

text \<open>
  A \<open>clip_tokens\<close> to run \<open>get_pr_description\<close> with: it counts every character
  as one token, and returns \<open>None\<close> unchanged.
\<close>

definition clip_chars :: "string option \<Rightarrow> int \<Rightarrow> string option" where
  "clip_chars text max_tokens =
     (case text of None \<Rightarrow> None | Some s \<Rightarrow> Some (take (nat max_tokens) s))"

section \<open>The main language of a pull request\<close>

datatype EDIT_TYPE = ADDED | DELETED | MODIFIED | RENAMED

text \<open>
  The dataclass \<open>FilePatchInfo\<close>. Python does not check the annotations of a
  dataclass: a field declared \<open>str\<close> can hold \<open>None\<close>, and the source itself
  builds an instance with \<open>None\<close> in three of them. So every \<open>str\<close> field is an
  \<open>option\<close> here, and reading \<open>filename.rsplit\<close> of a \<open>None\<close> filename raises
  \<open>AttributeError\<close>.
\<close>

record FilePatchInfo =
  base_file :: "string option"
  head_file :: "string option"
  patch :: "string option"
  filename :: "string option"
  tokens :: int
  edit_type :: EDIT_TYPE
  old_filename :: "string option"

text \<open>The constructor call with four arguments; the other fields take their defaults.\<close>

definition FilePatchInfo_init ::
  "string option \<Rightarrow> string option \<Rightarrow> string option \<Rightarrow> string option \<Rightarrow> FilePatchInfo" where
  "FilePatchInfo_init b h p f =
     \<lparr>base_file = b, head_file = h, patch = p, filename = f,
      tokens = - 1, edit_type = MODIFIED, old_filename = None\<rparr>"

text \<open>An item of \<open>files\<close> is a \<open>str\<close> or a \<open>FilePatchInfo\<close>.\<close>

datatype file_entry = Str string | Patch FilePatchInfo

text \<open>The body of the \<open>for\<close> loop: the extension that one item appends.\<close>

definition entry_extension :: "file_entry \<Rightarrow> py_error + string" where
  "entry_extension file =
     (let file' = (case file of
                     Str s \<Rightarrow> FilePatchInfo_init None None None (Some s)
                   | Patch p \<Rightarrow> p)
      in case filename file' of
           None \<Rightarrow> Inl AttributeError
         | Some name \<Rightarrow> getitem (rsplit name (CHR ''.'')) (- 1))"

fun extension_loop :: "file_entry list \<Rightarrow> string list \<Rightarrow> py_error + string list" where
  "extension_loop [] extension_list = Inr extension_list"
| "extension_loop (file # files) extension_list =
     (case entry_extension file of
        Inl e \<Rightarrow> Inl e
      | Inr ext \<Rightarrow> extension_loop files (extension_list @ [ext]))"

definition extension_list :: "file_entry list \<Rightarrow> py_error + string list" where
  "extension_list files = extension_loop files []"

text \<open>\<open>max(languages, key=languages.get).lower()\<close>\<close>

definition top_language :: "(string, 'v::linorder) dict \<Rightarrow> py_error + string" where
  "top_language languages =
     (case py_max (dict_keys languages) (dict_get languages) of
        Inl e \<Rightarrow> Inl e
      | Inr k \<Rightarrow> Inr (lower k))"

text \<open>
  \<open>max(set(extension_list), key=extension_list.count)\<close>. The order in which Python
  iterates over a set of strings depends on their hashes, which change from one
  process to the next. The model takes that order as the argument \<open>iter\<close>: the list
  in which the elements of \<open>set(xs)\<close> come out. Whatever the process, that list has
  the elements of \<open>xs\<close>, each once; \<open>remdups\<close> is one such order.
\<close>

definition most_common_extension ::
  "(string list \<Rightarrow> string list) \<Rightarrow> string list \<Rightarrow> py_error + string" where
  "most_common_extension iter exts = py_max (iter exts) (count_list exts)"

text \<open>The condition of the \<open>if\<close>; \<open>and\<close> binds tighter than \<open>or\<close>.\<close>

definition language_match :: "string \<Rightarrow> string \<Rightarrow> bool" where
  "language_match ext lang =
     (ext = ''py'' \<and> lang = ''python'' \<or>
      ext = ''js'' \<and> lang = ''javascript'' \<or>
      ext = ''ts'' \<and> lang = ''typescript'' \<or>
      ext = ''go'' \<and> lang = ''go'' \<or>
      ext = ''java'' \<and> lang = ''java'' \<or>
      ext = ''c'' \<and> lang = ''c'' \<or>
      ext = ''cpp'' \<and> lang = ''c++'' \<or>
      ext = ''cs'' \<and> lang = ''c#'' \<or>
      ext = ''swift'' \<and> lang = ''swift'' \<or>
      ext = ''php'' \<and> lang = ''php'' \<or>
      ext = ''rb'' \<and> lang = ''ruby'' \<or>
      ext = ''rs'' \<and> lang = ''rust'' \<or>
      ext = ''scala'' \<and> lang = ''scala'' \<or>
      ext = ''kt'' \<and> lang = ''kotlin'' \<or>
      ext = ''pl'' \<and> lang = ''perl'' \<or>
      ext = lang)"

text \<open>The \<open>try\<close> block, with the value \<open>main_language_str\<close> has at its end.\<close>

definition main_language_try ::
  "(string list \<Rightarrow> string list) \<Rightarrow> (string, 'v::linorder) dict \<Rightarrow> file_entry list
     \<Rightarrow> py_error + string" where
  "main_language_try iter languages files =
     (case top_language languages of
        Inl e \<Rightarrow> Inl e
      | Inr top_lang \<Rightarrow>
          (case extension_list files of
             Inl e \<Rightarrow> Inl e
           | Inr exts \<Rightarrow>
               (case most_common_extension iter exts of
                  Inl e \<Rightarrow> Inl e
                | Inr most_common \<Rightarrow>
                    Inr (if language_match most_common top_lang then top_lang else []))))"

text \<open>
  The function: \<open>languages\<close> and \<open>files\<close> may be \<open>None\<close>; \<open>not x\<close> holds for
  \<open>None\<close> and for an empty container. \<open>except Exception\<close> catches every error of
  the model, and \<open>main_language_str\<close> is then still the empty string.
\<close>

definition get_main_pr_language ::
  "(string list \<Rightarrow> string list) \<Rightarrow> (string, 'v::linorder) dict option
     \<Rightarrow> file_entry list option \<Rightarrow> py_error + string" where
  "get_main_pr_language iter languages files =
     (case languages of
        None \<Rightarrow> Inr []
      | Some ls \<Rightarrow>
          if ls = [] then Inr []
          else (case files of
                  None \<Rightarrow> Inr []
                | Some fs \<Rightarrow>
                    if fs = [] then Inr []
                    else (case main_language_try iter ls fs of
                            Inl e \<Rightarrow> Inr []
                          | Inr main_language_str \<Rightarrow> Inr main_language_str)))"

text \<open>
  The table of the specification, extension first, to compare \<open>language_match\<close>
  with.
\<close>

definition extension_table :: "(string \<times> string) list" where
  "extension_table =
     [(''py'', ''python''), (''js'', ''javascript''), (''ts'', ''typescript''),
      (''go'', ''go''), (''java'', ''java''), (''c'', ''c''), (''cpp'', ''c++''),
      (''cs'', ''c#''), (''swift'', ''swift''), (''php'', ''php''), (''rb'', ''ruby''),
      (''rs'', ''rust''), (''scala'', ''scala''), (''kt'', ''kotlin''), (''pl'', ''perl'')]"

section \<open>Incremental reviews\<close>

text \<open>
  \<open>IncrementalPR\<close> holds two commits of the hosting platform, of which only the
  attribute \<open>sha\<close> is read, and a range of commits that is never read here. The two
  properties are modelled with the object passed through, so that what they leave of
  it can be stated.
\<close>

record Commit =
  sha :: string

record 'r IncrementalPR =
  is_incremental :: bool
  commits_range :: "'r option"
  first_new_commit :: "Commit option"
  last_seen_commit :: "Commit option"

definition IncrementalPR_init :: "bool \<Rightarrow> 'r IncrementalPR" where
  "IncrementalPR_init flag =
     \<lparr>is_incremental = flag, commits_range = None,
      first_new_commit = None, last_seen_commit = None\<rparr>"

definition first_new_commit_sha :: "'r IncrementalPR \<Rightarrow> string option \<times> 'r IncrementalPR" where
  "first_new_commit_sha self =
     ((case first_new_commit self of None \<Rightarrow> None | Some c \<Rightarrow> Some (sha c)), self)"

definition last_seen_commit_sha :: "'r IncrementalPR \<Rightarrow> string option \<times> 'r IncrementalPR" where
  "last_seen_commit_sha self =
     ((case last_seen_commit self of None \<Rightarrow> None | Some c \<Rightarrow> Some (sha c)), self)"

section \<open>Facts about the string operations\<close>

lemma strip_Nil: "strip [] = []"
  by (simp add: strip_def lstrip_def rstrip_def)

lemma rstrip_Nil_iff: "rstrip s = [] \<longleftrightarrow> (\<forall>c \<in> set s. isspace c)"
  by (auto simp: rstrip_def)

lemma lstrip_head: "lstrip s \<noteq> [] \<Longrightarrow> \<not> isspace (hd (lstrip s))"
  unfolding lstrip_def by (rule hd_dropWhile)

lemma rstrip_last: "rstrip s \<noteq> [] \<Longrightarrow> \<not> isspace (last (rstrip s))"
  unfolding rstrip_def using hd_dropWhile [of isspace "rev s"]
  by (simp add: last_rev)

lemma lstrip_id: "s = [] \<or> \<not> isspace (hd s) \<Longrightarrow> lstrip s = s"
  by (cases s) (auto simp: lstrip_def)

lemma rstrip_id: "s = [] \<or> \<not> isspace (last s) \<Longrightarrow> rstrip s = s"
proof (cases "rev s")
  case Nil
  then show ?thesis by (simp add: rstrip_def)
next
  case (Cons c cs)
  assume "s = [] \<or> \<not> isspace (last s)"
  with Cons have "\<not> isspace c"
    by (metis Nil_is_rev_conv hd_rev list.distinct(1) list.sel(1))
  with Cons have "dropWhile isspace (rev s) = rev s" by simp
  then show ?thesis by (simp add: rstrip_def)
qed

lemma rstrip_keeps_head: "rstrip s \<noteq> [] \<Longrightarrow> hd (rstrip s) = hd s"
proof -
  assume ne: "rstrip s \<noteq> []"
  have "rev s = takeWhile isspace (rev s) @ dropWhile isspace (rev s)" by simp
  then have "s = rev (dropWhile isspace (rev s)) @ rev (takeWhile isspace (rev s))"
    by (metis rev_append rev_rev_ident)
  then have "s = rstrip s @ rev (takeWhile isspace (rev s))"
    by (simp add: rstrip_def)
  with ne show ?thesis by (metis hd_append2)
qed

lemma strip_idem: "strip (strip s) = strip s"
proof (cases "strip s = []")
  case True
  then show ?thesis by (simp add: strip_Nil)
next
  case False
  then have ne: "rstrip (lstrip s) \<noteq> []" by (simp add: strip_def)
  then have "lstrip s \<noteq> []" by (auto simp: rstrip_def)
  then have "\<not> isspace (hd (lstrip s))" by (rule lstrip_head)
  with ne have "\<not> isspace (hd (strip s))"
    by (simp add: strip_def rstrip_keeps_head)
  then have l: "lstrip (strip s) = strip s" by (simp add: lstrip_id)
  from ne have "\<not> isspace (last (strip s))" by (simp add: strip_def rstrip_last)
  then have "rstrip (strip s) = strip s" by (simp add: rstrip_id)
  with l show ?thesis by (simp add: strip_def [of "strip s"])
qed

lemma strip_ends:
  "strip s = [] \<or> (\<not> isspace (hd (strip s)) \<and> \<not> isspace (last (strip s)))"
proof (cases "strip s = []")
  case True
  then show ?thesis by simp
next
  case False
  then have ne: "rstrip (lstrip s) \<noteq> []" by (simp add: strip_def)
  then have "lstrip s \<noteq> []" by (auto simp: rstrip_def)
  then have "\<not> isspace (hd (lstrip s))" by (rule lstrip_head)
  with ne have h: "\<not> isspace (hd (strip s))"
    by (simp add: strip_def rstrip_keeps_head)
  from ne have "\<not> isspace (last (strip s))" by (simp add: strip_def rstrip_last)
  with h show ?thesis by simp
qed

lemma str_find_None_iff: "str_find s sep = None \<longleftrightarrow> \<not> sublist sep s"
  by (induction s) (auto simp: sublist_Cons_right)

lemma str_in_iff: "str_in sep s \<longleftrightarrow> sublist sep s"
  by (simp add: str_in_def str_find_None_iff)

lemma str_find_Some:
  "str_find s sep = Some i \<Longrightarrow>
     i \<le> length s \<and> prefix sep (drop i s) \<and> (\<forall>j<i. \<not> prefix sep (drop j s))"
proof (induction s arbitrary: i)
  case Nil
  then show ?case by (simp split: if_splits)
next
  case (Cons c cs)
  show ?case
  proof (cases "prefix sep (c # cs)")
    case True
    with Cons.prems show ?thesis by simp
  next
    case False
    with Cons.prems obtain k where k: "str_find cs sep = Some k" and i: "i = Suc k"
      by (auto split: option.splits)
    from Cons.IH [OF k] have ih:
      "k \<le> length cs" "prefix sep (drop k cs)" "\<forall>j<k. \<not> prefix sep (drop j cs)"
      by simp_all
    have "\<not> prefix sep (drop j (c # cs))" if "j < i" for j
    proof (cases j)
      case 0
      with False show ?thesis by simp
    next
      case (Suc m)
      with that i ih(3) show ?thesis by simp
    qed
    with ih i show ?thesis by simp
  qed
qed

lemma str_find_first:
  assumes "\<forall>j<length pre. \<not> prefix sep (drop j (pre @ sep @ post))"
  shows "str_find (pre @ sep @ post) sep = Some (length pre)"
proof -
  have "sublist sep (pre @ sep @ post)" by (auto simp: sublist_def)
  then obtain i where i: "str_find (pre @ sep @ post) sep = Some i"
    using str_find_None_iff [of "pre @ sep @ post" sep] by auto
  from str_find_Some [OF i]
  have later: "\<forall>j<i. \<not> prefix sep (drop j (pre @ sep @ post))" and "prefix sep (drop i (pre @ sep @ post))"
    by simp_all
  with assms have "\<not> i < length pre" by blast
  moreover have "\<not> length pre < i"
  proof
    assume "length pre < i"
    with later have "\<not> prefix sep (drop (length pre) (pre @ sep @ post))" by blast
    then show False by simp
  qed
  ultimately show ?thesis using i by simp
qed

section \<open>Facts about the description helpers\<close>

lemma get_user_description_eq:
  "get_user_description self =
     Inr (let d = strip (or_empty (get_pr_description_full self))
          in if \<not> startswith d ''## PR Type'' then d
             else case str_find d ''## User Description:'' of
                    None \<Rightarrow> []
                  | Some i \<Rightarrow> strip (drop (i + length ''## User Description:'') d))"
  by (simp add: get_user_description_def Let_def str_in_def split1_def getitem_def
      split: option.splits)

lemma or_empty_Some: "or_empty (Some s) = s"
  by (simp add: or_empty_def)

section \<open>Facts about the language detector\<close>

lemma max_loop_mem: "max_loop key b xs \<in> set (b # xs)"
  by (induction xs arbitrary: b) auto

lemma max_loop_ge_start: "key b \<le> key (max_loop key b xs)"
proof (induction xs arbitrary: b)
  case Nil
  show ?case by simp
next
  case (Cons x xs)
  have "key b \<le> key (if key b < key x then x else b)" by auto
  also have "\<dots> \<le> key (max_loop key (if key b < key x then x else b) xs)"
    by (rule Cons.IH)
  finally show ?case by simp
qed

lemma max_loop_ge: "x \<in> set (b # xs) \<Longrightarrow> key x \<le> key (max_loop key b xs)"
proof (induction xs arbitrary: b)
  case Nil
  then show ?case by simp
next
  case (Cons y ys)
  let ?b = "if key b < key y then y else b"
  from Cons.prems consider "x = b" | "x = y" | "x \<in> set ys" by auto
  then show ?case
  proof cases
    case 1
    then show ?thesis using max_loop_ge_start [of key b "y # ys"] by simp
  next
    case 2
    have "key y \<le> key ?b" by auto
    also have "\<dots> \<le> key (max_loop key ?b ys)" by (rule max_loop_ge_start)
    finally show ?thesis using 2 by simp
  next
    case 3
    then have "key x \<le> key (max_loop key ?b ys)" by (intro Cons.IH) simp
    then show ?thesis by simp
  qed
qed

lemma py_max_nonempty:
  assumes "xs \<noteq> []"
  shows "\<exists>m. py_max xs key = Inr m \<and> m \<in> set xs \<and> (\<forall>x\<in>set xs. key x \<le> key m)"
proof -
  from assms obtain b rest where xs: "xs = b # rest" by (cases xs) auto
  have "max_loop key b rest \<in> set xs" unfolding xs by (rule max_loop_mem)
  moreover have "\<forall>x\<in>set xs. key x \<le> key (max_loop key b rest)"
    unfolding xs using max_loop_ge [of _ b rest key] by blast
  ultimately show ?thesis by (simp add: py_max_def xs)
qed

lemma extension_loop_all2:
  "extension_loop files acc = Inr exts \<Longrightarrow>
     \<exists>es. exts = acc @ es \<and> list_all2 (\<lambda>f e. entry_extension f = Inr e) files es"
proof (induction files arbitrary: acc)
  case Nil
  then show ?case by simp
next
  case (Cons f fs)
  from Cons.prems obtain x where x: "entry_extension f = Inr x"
    and rest: "extension_loop fs (acc @ [x]) = Inr exts"
    by (auto split: sum.splits)
  from Cons.IH [OF rest] obtain es where "exts = (acc @ [x]) @ es"
    and "list_all2 (\<lambda>f e. entry_extension f = Inr e) fs es" by blast
  with x have "exts = acc @ (x # es) \<and> list_all2 (\<lambda>f e. entry_extension f = Inr e) (f # fs) (x # es)"
    by simp
  then show ?case by blast
qed

lemma extension_list_all2:
  "extension_list files = Inr exts \<Longrightarrow> list_all2 (\<lambda>f e. entry_extension f = Inr e) files exts"
  unfolding extension_list_def using extension_loop_all2 [of files "[]" exts] by simp

lemma rsplit_nonempty: "rsplit s sep \<noteq> []"
  by (induction s) (auto split: list.splits)

lemma rsplit_no_sep: "sep \<notin> set s \<Longrightarrow> rsplit s sep = [s]"
  by (induction s) auto

lemma rsplit_append: "rsplit (xs @ sep # ys) sep = rsplit xs sep @ rsplit ys sep"
proof (induction xs)
  case Nil
  show ?case by simp
next
  case (Cons c cs)
  obtain p ps where "rsplit cs sep = p # ps"
    using rsplit_nonempty [of cs sep] by (cases "rsplit cs sep") auto
  with Cons show ?case by simp
qed

lemma getitem_last: "xs \<noteq> [] \<Longrightarrow> getitem xs (- 1) = Inr (last xs)"
  by (cases xs rule: rev_cases) (auto simp: getitem_def nth_append)

lemma entry_extension_name:
  assumes "file = Str name \<or> (\<exists>p. file = Patch p \<and> filename p = Some name)"
  shows "entry_extension file = Inr (last (rsplit name (CHR ''.'')))"
  using assms
  by (auto simp: entry_extension_def FilePatchInfo_init_def getitem_last rsplit_nonempty)

lemma language_match_table:
  "language_match ext lang \<longleftrightarrow> (ext, lang) \<in> set extension_table \<or> ext = lang"
  by (auto simp: language_match_def extension_table_def)

lemma main_language_eq:
  assumes "languages \<noteq> []" and "files \<noteq> []"
    and "top_language languages = Inr top_lang"
    and "extension_list files = Inr exts"
    and "most_common_extension iter exts = Inr ext"
  shows "get_main_pr_language iter (Some languages) (Some files)
           = Inr (if (ext, top_lang) \<in> set extension_table \<or> ext = top_lang then top_lang else [])"
  using assms
  by (simp add: get_main_pr_language_def main_language_try_def language_match_table)

section \<open>The description helpers of the provider\<close>

text \<open>
  Claim C1. Let the description, stripped of surrounding whitespace, start with
  \<open>## PR Type\<close>. If the stripped text does not contain \<open>## User Description:\<close>,
  \<open>get_user_description\<close> returns the empty string. If it does, the stripped text is
  \<open>pre @ ''## User Description:'' @ post\<close> with no occurrence of the marker starting
  inside \<open>pre\<close>, that is, cut at the first occurrence, and the method returns
  \<open>post\<close> stripped.
\<close>

theorem user_description_of_generated:
  assumes "startswith (strip D) ''## PR Type''"
  shows "(\<not> sublist ''## User Description:'' (strip D) \<longrightarrow>
            get_user_description \<lparr>get_pr_description_full = Some D\<rparr> = Inr []) \<and>
         (sublist ''## User Description:'' (strip D) \<longrightarrow>
            (\<exists>pre post.
               strip D = pre @ ''## User Description:'' @ post \<and>
               (\<forall>j<length pre. \<not> prefix ''## User Description:'' (drop j (strip D))) \<and>
               get_user_description \<lparr>get_pr_description_full = Some D\<rparr> = Inr (strip post)))"
proof (intro conjI impI)
  assume "\<not> sublist ''## User Description:'' (strip D)"
  then have "str_find (strip D) ''## User Description:'' = None"
    by (simp add: str_find_None_iff)
  with assms show "get_user_description \<lparr>get_pr_description_full = Some D\<rparr> = Inr []"
    by (simp add: get_user_description_eq or_empty_Some)
next
  let ?sep = "''## User Description:''"
  assume "sublist ?sep (strip D)"
  then obtain i where i: "str_find (strip D) ?sep = Some i"
    using str_find_None_iff [of "strip D" ?sep] by auto
  from str_find_Some [OF i] have le: "i \<le> length (strip D)"
    and at: "prefix ?sep (drop i (strip D))"
    and first: "\<forall>j<i. \<not> prefix ?sep (drop j (strip D))"
    by simp_all
  from at obtain post where post: "drop i (strip D) = ?sep @ post"
    by (auto simp: prefix_def)
  then have "drop (length ?sep) (drop i (strip D)) = post" by simp
  then have post_eq: "post = drop (i + length ?sep) (strip D)"
    by (simp add: add.commute)
  have "strip D = take i (strip D) @ drop i (strip D)" by simp
  with post have cut: "strip D = take i (strip D) @ ?sep @ post" by simp
  from le have len: "length (take i (strip D)) = i" by simp
  from assms i have "get_user_description \<lparr>get_pr_description_full = Some D\<rparr> = Inr (strip post)"
    by (simp add: get_user_description_eq or_empty_Some post_eq)
  with cut first len
  show "\<exists>pre post.
          strip D = pre @ ?sep @ post \<and>
          (\<forall>j<length pre. \<not> prefix ?sep (drop j (strip D))) \<and>
          get_user_description \<lparr>get_pr_description_full = Some D\<rparr> = Inr (strip post)"
    by metis
qed

text \<open>
  The two generated descriptions of the specification: one whose user section is
  \<open>hello\<close>, and one without a user section.
\<close>

theorem user_description_of_generated_witness:
  "startswith (strip (''## PR Type'' @ [CHR 0x0A] @ ''...## User Description:'' @ [CHR 0x0A] @ ''  hello  '')) ''## PR Type'' \<and>
   sublist ''## User Description:'' (strip (''## PR Type'' @ [CHR 0x0A] @ ''...## User Description:'' @ [CHR 0x0A] @ ''  hello  '')) \<and>
   (\<exists>pre post.
      strip (''## PR Type'' @ [CHR 0x0A] @ ''...## User Description:'' @ [CHR 0x0A] @ ''  hello  '')
        = pre @ ''## User Description:'' @ post \<and>
      get_user_description
        \<lparr>get_pr_description_full =
           Some (''## PR Type'' @ [CHR 0x0A] @ ''...## User Description:'' @ [CHR 0x0A] @ ''  hello  '')\<rparr>
        = Inr (strip post)) \<and>
   get_user_description
     \<lparr>get_pr_description_full =
        Some (''## PR Type'' @ [CHR 0x0A] @ ''...## User Description:'' @ [CHR 0x0A] @ ''  hello  '')\<rparr>
     = Inr ''hello'' \<and>
   startswith (strip (''## PR Type'' @ [CHR 0x0A] @ ''...no user section'')) ''## PR Type'' \<and>
   \<not> sublist ''## User Description:'' (strip (''## PR Type'' @ [CHR 0x0A] @ ''...no user section'')) \<and>
   get_user_description
     \<lparr>get_pr_description_full = Some (''## PR Type'' @ [CHR 0x0A] @ ''...no user section'')\<rparr>
     = Inr []"
proof -
  let ?D = "''## PR Type'' @ [CHR 0x0A] @ ''...## User Description:'' @ [CHR 0x0A] @ ''  hello  ''"
  have h: "startswith (strip ?D) ''## PR Type''" by code_simp
  have c: "sublist ''## User Description:'' (strip ?D)" by code_simp
  have v: "get_user_description \<lparr>get_pr_description_full = Some ?D\<rparr> = Inr ''hello''"
    by code_simp
  from user_description_of_generated [OF h] c
  have "\<exists>pre post.
      strip ?D = pre @ ''## User Description:'' @ post \<and>
      get_user_description \<lparr>get_pr_description_full = Some ?D\<rparr> = Inr (strip post)"
    by blast
  note e = this
  let ?N = "''## PR Type'' @ [CHR 0x0A] @ ''...no user section''"
  have h': "startswith (strip ?N) ''## PR Type''" by code_simp
  have c': "\<not> sublist ''## User Description:'' (strip ?N)" by code_simp
  from user_description_of_generated [OF h'] c'
  have n: "get_user_description \<lparr>get_pr_description_full = Some ?N\<rparr> = Inr []"
    by blast
  show ?thesis by (intro conjI) fact+
qed

text \<open>
  Claim C2, as amended. When the text \<open>T\<close>, once stripped of surrounding whitespace,
  does not start with \<open>## PR Type\<close>, \<open>get_user_description\<close> returns the stripped
  text. The test is made on the stripped text, not on \<open>T\<close> itself.
\<close>

theorem user_description_round_trip:
  "\<not> startswith (strip T) ''## PR Type'' \<Longrightarrow>
     get_user_description \<lparr>get_pr_description_full = Some T\<rparr> = Inr (strip T)"
  by (simp add: get_user_description_eq or_empty_Some)

text \<open>A description written by hand.\<close>

theorem user_description_round_trip_witness:
  "\<not> startswith (strip ''  fix the bug  '') ''## PR Type'' \<and>
   get_user_description \<lparr>get_pr_description_full = Some ''  fix the bug  ''\<rparr>
     = Inr (strip ''  fix the bug  '') \<and>
   strip ''  fix the bug  '' = ''fix the bug''"
proof -
  have h: "\<not> startswith (strip ''  fix the bug  '') ''## PR Type''" by code_simp
  have v: "strip ''  fix the bug  '' = ''fix the bug''" by code_simp
  from user_description_round_trip [OF h] h v show ?thesis by blast
qed

text \<open>
  The text \<open>'' ## PR Type''\<close> begins with a blank, so it does not start with the marker,
  but its stripped form does: the method takes it for a generated description
  without a user section and returns the empty string, not the stripped text.
\<close>

theorem raw_prefix_round_trip_counterexample:
  "\<not> (\<not> startswith '' ## PR Type'' ''## PR Type'' \<longrightarrow>
        get_user_description \<lparr>get_pr_description_full = Some '' ## PR Type''\<rparr>
          = Inr (strip '' ## PR Type''))"
  by code_simp

text \<open>
  Claim C9. When \<open>get_pr_description_full\<close> returns \<open>None\<close> or the empty string,
  \<open>get_user_description\<close> returns the empty string and does not raise.
\<close>

theorem user_description_of_absent:
  "get_user_description \<lparr>get_pr_description_full = None\<rparr> = Inr [] \<and>
   get_user_description \<lparr>get_pr_description_full = Some []\<rparr> = Inr []"
  by (simp add: get_user_description_eq or_empty_def strip_Nil startswith_def)

text \<open>
  Claim C10. \<open>get_user_description\<close> always returns a string, and that string has
  no whitespace at either end: it is empty, or neither its first nor its last
  character is whitespace. Stripping it again therefore leaves it as it is.
\<close>

theorem user_description_is_trimmed:
  "\<exists>s. get_user_description self = Inr s \<and>
       (s = [] \<or> (\<not> isspace (hd s) \<and> \<not> isspace (last s))) \<and>
       strip s = s"
proof -
  obtain s where s: "get_user_description self = Inr s"
    using get_user_description_eq [of self] by blast
  have "s = [] \<or> (\<exists>t. s = strip t)"
    using s unfolding get_user_description_eq Let_def
    by (auto split: if_splits option.splits)
  then have "(s = [] \<or> (\<not> isspace (hd s) \<and> \<not> isspace (last s))) \<and> strip s = s"
    using strip_ends strip_idem strip_Nil by auto
  with s show ?thesis by blast
qed

text \<open>A description with blanks on both sides: the result is \<open>fix\<close>, without them.\<close>

theorem user_description_is_trimmed_witness:
  "get_user_description \<lparr>get_pr_description_full = Some ''  fix  ''\<rparr> = Inr ''fix'' \<and>
   ''fix'' \<noteq> [] \<and>
   \<not> isspace (hd ''fix'') \<and> \<not> isspace (last ''fix'') \<and>
   strip ''fix'' = ''fix''"
proof -
  let ?p = "\<lparr>get_pr_description_full = Some ''  fix  ''\<rparr>"
  have v: "get_user_description ?p = Inr ''fix''" by code_simp
  have ne: "''fix'' \<noteq> []" by simp
  from user_description_is_trimmed [of ?p] v
  have t: "(''fix'' = [] \<or> (\<not> isspace (hd ''fix'') \<and> \<not> isspace (last ''fix''))) \<and>
           strip ''fix'' = ''fix''"
    by auto
  with ne have a: "\<not> isspace (hd ''fix'')" and b: "\<not> isspace (last ''fix'')"
    and c: "strip ''fix'' = ''fix''" by blast+
  show ?thesis by (intro conjI) fact+
qed

text \<open>
  Claim C7, as amended. \<open>get_pr_description\<close> chooses what \<open>get_pr_description_full\<close>
  returns when \<open>full\<close> holds, and what \<open>get_user_description\<close> returns otherwise.
  When the setting is an integer other than zero the choice goes through
  \<open>clip_tokens\<close> with that integer; when the setting is absent or zero the choice is
  returned as it is.
\<close>

theorem pr_description_choice_and_clip:
  "\<exists>user. get_user_description self = Inr user \<and>
     get_pr_description clip_tokens max_tokens self full =
       Inr (let chosen = (if full then get_pr_description_full self else Some user)
            in case max_tokens of
                 None \<Rightarrow> chosen
               | Some n \<Rightarrow> if n = 0 then chosen else clip_tokens chosen n)"
proof -
  obtain user where user: "get_user_description self = Inr user"
    using get_user_description_eq [of self] by blast
  then have "get_pr_description clip_tokens max_tokens self full =
       Inr (let chosen = (if full then get_pr_description_full self else Some user)
            in case max_tokens of
                 None \<Rightarrow> chosen
               | Some n \<Rightarrow> if n = 0 then chosen else clip_tokens chosen n)"
    by (simp add: get_pr_description_def split: option.splits)
  with user show ?thesis by blast
qed

text \<open>
  With the setting at zero the description is not clipped: a \<open>clip_tokens\<close> that
  keeps no character for a budget of zero would have returned the empty string.
\<close>

theorem zero_budget_clip_counterexample:
  "\<not> (get_pr_description clip_chars (Some 0) \<lparr>get_pr_description_full = Some ''abc''\<rparr> True
        = Inr (clip_chars (get_pr_description_full \<lparr>get_pr_description_full = Some ''abc''\<rparr>) 0))"
  by code_simp

section \<open>The language detector\<close>

text \<open>
  Claim C3, as amended. Let \<open>languages\<close> and \<open>files\<close> be non-empty, let every
  item of \<open>files\<close> have a filename, so that the extensions \<open>exts\<close> are computed,
  and let the set of extensions be iterated in any order. Then there are a top
  language, the lower-cased key of \<open>languages\<close> than whose value none is greater,
  and a most common extension, an extension than which none occurs more often.
  \<open>get_main_pr_language\<close> returns the top language when the table of the
  specification pairs the most common extension with it or when the two are the
  same string, and the empty string otherwise. So, when the top language is not
  the empty string, the function returns it if and only if that condition holds.
  In particular it returns the top language when the table pairs every extension
  with it.
\<close>

theorem main_language_match_policy:
  assumes "languages \<noteq> []" and "files \<noteq> []"
    and "extension_list files = Inr exts"
    and "set (iter exts) = set exts"
  shows "\<exists>top_lang ext.
           top_language languages = Inr top_lang \<and>
           (\<exists>k\<in>set (dict_keys languages).
              top_lang = lower k \<and>
              (\<forall>k'\<in>set (dict_keys languages). dict_get languages k' \<le> dict_get languages k)) \<and>
           most_common_extension iter exts = Inr ext \<and>
           ext \<in> set exts \<and>
           (\<forall>e\<in>set exts. count_list exts e \<le> count_list exts ext) \<and>
           get_main_pr_language iter (Some languages) (Some files)
             = Inr (if (ext, top_lang) \<in> set extension_table \<or> ext = top_lang
                    then top_lang else []) \<and>
           (top_lang \<noteq> [] \<longrightarrow>
              (get_main_pr_language iter (Some languages) (Some files) = Inr top_lang
                 \<longleftrightarrow> (ext, top_lang) \<in> set extension_table \<or> ext = top_lang)) \<and>
           ((\<forall>e\<in>set exts. (e, top_lang) \<in> set extension_table) \<longrightarrow>
              get_main_pr_language iter (Some languages) (Some files) = Inr top_lang)"
proof -
  from assms(1) have "dict_keys languages \<noteq> []" by (simp add: dict_keys_def)
  from py_max_nonempty [OF this, of "dict_get languages"]
  obtain k where k: "py_max (dict_keys languages) (dict_get languages) = Inr k"
    and k_key: "k \<in> set (dict_keys languages)"
    and k_max: "\<forall>k'\<in>set (dict_keys languages). dict_get languages k' \<le> dict_get languages k"
    by blast
  from k have top: "top_language languages = Inr (lower k)"
    by (simp add: top_language_def)
  from extension_list_all2 [OF assms(3)] have "length exts = length files"
    by (simp add: list_all2_lengthD)
  with assms(2) have "exts \<noteq> []" by auto
  with assms(4) have "iter exts \<noteq> []" by (metis set_empty)
  from py_max_nonempty [OF this, of "count_list exts"] assms(4)
  obtain ext where ext: "most_common_extension iter exts = Inr ext"
    and ext_mem: "ext \<in> set exts"
    and ext_max: "\<forall>e\<in>set exts. count_list exts e \<le> count_list exts ext"
    unfolding most_common_extension_def by auto
  let ?r = "get_main_pr_language iter (Some languages) (Some files)"
  let ?c = "(ext, lower k) \<in> set extension_table \<or> ext = lower k"
  have r: "?r = Inr (if ?c then lower k else [])"
    by (rule main_language_eq [OF assms(1) assms(2) top assms(3) ext])
  have iff: "lower k \<noteq> [] \<longrightarrow> (?r = Inr (lower k) \<longleftrightarrow> ?c)"
    unfolding r by auto
  have all: "(\<forall>e\<in>set exts. (e, lower k) \<in> set extension_table) \<longrightarrow> ?r = Inr (lower k)"
    unfolding r using ext_mem by auto
  from top k_key k_max ext ext_mem ext_max r iff all show ?thesis by blast
qed

text \<open>
  The two examples of the specification: two Python files and a JavaScript file in
  a Python repository, and a Rust file in a Python repository.
\<close>

theorem main_language_match_policy_witness:
  "[(''Python'', 120::int), (''JavaScript'', 30)] \<noteq> [] \<and>
   [Str ''a.py'', Str ''b.py'', Str ''c.js''] \<noteq> [] \<and>
   extension_list [Str ''a.py'', Str ''b.py'', Str ''c.js''] = Inr [''py'', ''py'', ''js''] \<and>
   set (remdups [''py'', ''py'', ''js'']) = set [''py'', ''py'', ''js''] \<and>
   top_language [(''Python'', 120::int), (''JavaScript'', 30)] = Inr ''python'' \<and>
   most_common_extension remdups [''py'', ''py'', ''js''] = Inr ''py'' \<and>
   (''py'', ''python'') \<in> set extension_table \<and>
   get_main_pr_language remdups (Some [(''Python'', 120::int), (''JavaScript'', 30)])
     (Some [Str ''a.py'', Str ''b.py'', Str ''c.js'']) = Inr ''python'' \<and>
   extension_list [Str ''a.rs''] = Inr [''rs''] \<and>
   top_language [(''Python'', 120::int)] = Inr ''python'' \<and>
   most_common_extension remdups [''rs''] = Inr ''rs'' \<and>
   (''rs'', ''python'') \<notin> set extension_table \<and>
   get_main_pr_language remdups (Some [(''Python'', 120::int)]) (Some [Str ''a.rs'']) = Inr []"
proof -
  let ?L = "[(''Python'', 120::int), (''JavaScript'', 30)]"
  let ?F = "[Str ''a.py'', Str ''b.py'', Str ''c.js'']"
  let ?E = "[''py'', ''py'', ''js'']"
  have l: "?L \<noteq> []" and f: "?F \<noteq> []" by simp_all
  have e: "extension_list ?F = Inr ?E" by code_simp
  have i: "set (remdups ?E) = set ?E" by simp
  have t: "top_language ?L = Inr ''python''" by code_simp
  have m: "most_common_extension remdups ?E = Inr ''py''" by code_simp
  have tab: "(''py'', ''python'') \<in> set extension_table" by code_simp
  from main_language_match_policy [of ?L ?F ?E remdups, OF l f e i] t m tab
  have r: "get_main_pr_language remdups (Some ?L) (Some ?F) = Inr ''python''"
    by auto
  let ?L' = "[(''Python'', 120::int)]"
  let ?F' = "[Str ''a.rs'']"
  let ?E' = "[''rs'']"
  have l': "?L' \<noteq> []" and f': "?F' \<noteq> []" by simp_all
  have e': "extension_list ?F' = Inr ?E'" by code_simp
  have i': "set (remdups ?E') = set ?E'" by simp
  have t': "top_language ?L' = Inr ''python''" by code_simp
  have m': "most_common_extension remdups ?E' = Inr ''rs''" by code_simp
  have tab': "(''rs'', ''python'') \<notin> set extension_table" by code_simp
  have ne: "''rs'' \<noteq> ''python''" by simp
  from main_language_match_policy [of ?L' ?F' ?E' remdups, OF l' f' e' i'] t' m' tab' ne
  have r': "get_main_pr_language remdups (Some ?L') (Some ?F') = Inr []"
    by auto
  show ?thesis by (intro conjI) fact+
qed

text \<open>
  When the only language has the empty string for its name, the top language is the
  empty string. For the file \<open>a.py\<close> nothing matches, and the function returns the
  empty string, which is the top language: the result is the top language although
  the condition does not hold.
\<close>

theorem empty_top_language_counterexample:
  "top_language [([], 1::int)] = Inr [] \<and>
   extension_list [Str ''a.py''] = Inr [''py''] \<and>
   most_common_extension remdups [''py''] = Inr ''py'' \<and>
   \<not> (get_main_pr_language remdups (Some [([], 1::int)]) (Some [Str ''a.py'']) = Inr []
        \<longleftrightarrow> (''py'', []) \<in> set extension_table \<or> ''py'' = [])"
  by code_simp

text \<open>
  Claim C4. \<open>get_main_pr_language\<close> returns the empty string when \<open>languages\<close> is
  \<open>None\<close> or empty, whatever the files, and when \<open>files\<close> is \<open>None\<close> or empty,
  whatever the languages.
\<close>

theorem main_language_of_nothing:
  "get_main_pr_language iter None files = Inr [] \<and>
   get_main_pr_language iter (Some []) files = Inr [] \<and>
   get_main_pr_language iter languages None = Inr [] \<and>
   get_main_pr_language iter languages (Some []) = Inr []"
  by (simp add: get_main_pr_language_def split: option.splits)

text \<open>
  Claim C5. \<open>get_main_pr_language\<close> returns a string on every input and raises
  nothing; when the \<open>try\<close> block raises, the result is the empty string.
\<close>

theorem main_language_never_raises:
  "(\<exists>s. get_main_pr_language iter languages files = Inr s) \<and>
   (\<forall>e. main_language_try iter ls fs = Inl e \<longrightarrow>
        get_main_pr_language iter (Some ls) (Some fs) = Inr [])"
  by (simp add: get_main_pr_language_def split: option.splits sum.splits)

text \<open>
  A file without an extension and an item whose filename is \<open>None\<close>: the block
  raises \<open>AttributeError\<close>, and the function returns the empty string.
\<close>

theorem main_language_never_raises_witness:
  "main_language_try remdups [(''Python'', 120::int)]
     [Str ''Makefile'', Patch (FilePatchInfo_init None None None None)] = Inl AttributeError \<and>
   get_main_pr_language remdups (Some [(''Python'', 120::int)])
     (Some [Str ''Makefile'', Patch (FilePatchInfo_init None None None None)]) = Inr []"
proof -
  let ?L = "[(''Python'', 120::int)]"
  let ?F = "[Str ''Makefile'', Patch (FilePatchInfo_init None None None None)]"
  have h: "main_language_try remdups ?L ?F = Inl AttributeError" by code_simp
  from main_language_never_raises [of remdups "Some ?L" "Some ?F" ?L ?F] h
  show ?thesis by blast
qed

text \<open>
  Claim C6. Let the loop over \<open>files\<close> compute the extensions \<open>exts\<close>, and let the
  item at index \<open>i\<close> be the string \<open>name\<close> or a \<open>FilePatchInfo\<close> whose filename is
  \<open>name\<close>. Then \<open>exts\<close> has an extension at index \<open>i\<close>, the one computed for that
  item; a bare string gives what the \<open>FilePatchInfo\<close> with only that filename set
  gives; the extension is \<open>name\<close> when \<open>name\<close> has no dot, and it is the text after
  the last dot of \<open>name\<close> otherwise.
\<close>

theorem extension_after_last_dot:
  assumes "extension_list files = Inr exts" and "i < length files"
    and "files ! i = Str name \<or> (\<exists>p. files ! i = Patch p \<and> filename p = Some name)"
  shows "i < length exts \<and>
         entry_extension (files ! i) = Inr (exts ! i) \<and>
         entry_extension (Str name)
           = entry_extension (Patch (FilePatchInfo_init None None None (Some name))) \<and>
         (CHR ''.'' \<notin> set name \<longrightarrow> exts ! i = name) \<and>
         (\<forall>pre ext. name = pre @ CHR ''.'' # ext \<and> CHR ''.'' \<notin> set ext \<longrightarrow> exts ! i = ext)"
proof -
  from extension_list_all2 [OF assms(1)]
  have all2: "list_all2 (\<lambda>f e. entry_extension f = Inr e) files exts" .
  then have len: "length exts = length files" by (simp add: list_all2_lengthD)
  from all2 assms(2) have at: "entry_extension (files ! i) = Inr (exts ! i)"
    by (rule list_all2_nthD)
  from entry_extension_name [OF assms(3)] at
  have val: "exts ! i = last (rsplit name (CHR ''.''))" by simp
  have bare: "entry_extension (Str name)
           = entry_extension (Patch (FilePatchInfo_init None None None (Some name)))"
    by (simp add: entry_extension_def)
  have nodot: "CHR ''.'' \<notin> set name \<longrightarrow> exts ! i = name"
    by (simp add: val rsplit_no_sep)
  have dot: "exts ! i = ext" if "name = pre @ CHR ''.'' # ext" and "CHR ''.'' \<notin> set ext"
    for pre ext
    using that by (simp add: val rsplit_append rsplit_no_sep)
  from len assms(2) at bare nodot dot show ?thesis by auto
qed

text \<open>A name with two dots, and a name without one.\<close>

theorem extension_after_last_dot_witness:
  "extension_list [Str ''a.tar.gz'', Patch (FilePatchInfo_init None None None (Some ''Makefile''))]
     = Inr [''gz'', ''Makefile''] \<and>
   (0::nat) < length [Str ''a.tar.gz'', Patch (FilePatchInfo_init None None None (Some ''Makefile''))] \<and>
   [Str ''a.tar.gz'', Patch (FilePatchInfo_init None None None (Some ''Makefile''))] ! 0 = Str ''a.tar.gz'' \<and>
   ''a.tar.gz'' = ''a.tar'' @ CHR ''.'' # ''gz'' \<and> CHR ''.'' \<notin> set ''gz'' \<and>
   [''gz'', ''Makefile''] ! 0 = ''gz''"
proof -
  let ?F = "[Str ''a.tar.gz'', Patch (FilePatchInfo_init None None None (Some ''Makefile''))]"
  have e: "extension_list ?F = Inr [''gz'', ''Makefile'']" by code_simp
  have i: "(0::nat) < length ?F" by simp
  have n: "?F ! 0 = Str ''a.tar.gz'' \<or> (\<exists>p. ?F ! 0 = Patch p \<and> filename p = Some ''a.tar.gz'')"
    by simp
  have z: "?F ! 0 = Str ''a.tar.gz''" by simp
  have c: "''a.tar.gz'' = ''a.tar'' @ CHR ''.'' # ''gz''" by simp
  have d: "CHR ''.'' \<notin> set ''gz''" by simp
  from extension_after_last_dot [OF e i n] c d
  have r: "[''gz'', ''Makefile''] ! 0 = ''gz''" by blast
  show ?thesis by (intro conjI) fact+
qed

section \<open>The accessors of an incremental review\<close>

text \<open>
  Claim C8. \<open>first_new_commit_sha\<close> is the \<open>sha\<close> of \<open>first_new_commit\<close> when there is
  such a commit and \<open>None\<close> when there is none, it is \<open>None\<close> only then, and the
  object is left as it was; the same holds of \<open>last_seen_commit_sha\<close> and
  \<open>last_seen_commit\<close>.
\<close>

theorem commit_sha_accessors:
  "fst (first_new_commit_sha self) = map_option sha (first_new_commit self) \<and>
   (fst (first_new_commit_sha self) = None \<longleftrightarrow> first_new_commit self = None) \<and>
   snd (first_new_commit_sha self) = self \<and>
   fst (last_seen_commit_sha self) = map_option sha (last_seen_commit self) \<and>
   (fst (last_seen_commit_sha self) = None \<longleftrightarrow> last_seen_commit self = None) \<and>
   snd (last_seen_commit_sha self) = self"
  by (simp add: first_new_commit_sha_def last_seen_commit_sha_def split: option.splits)

end
